theory Spec2Isabelle
  imports Complex_Main
begin

section \<open>Data model of the chat session store\<close>

text \<open>
  The classes of \<^verbatim>\<open>app-data.ts\<close> as records. A TypeScript field that may be
  \<^verbatim>\<open>undefined\<close> or \<^verbatim>\<open>null\<close> is an \<open>option\<close> (both are \<open>None\<close>: the code only tests
  such fields for truthiness or with the loose comparison, which do not tell them apart). A
  JavaScript \<^verbatim>\<open>number\<close> is a rational. A string is a list of characters, and its length
  counts the units that \<^verbatim>\<open>String.length\<close> counts. Field names are the source's; a name
  used by two classes, or by a constant of HOL, carries the class as a suffix.
\<close>

record Message =
  id_msg :: string
  role :: string
  message :: "string option"
  cost_tokens_completion :: "rat option"
  cost_tokens_prompt :: "rat option"
  cost_usd :: "rat option"
  finish_reason :: "string option"
  error :: "string option"
  start_edited :: "bool option"

record Settings =
  determinism :: rat
  max_tokens :: rat
  model :: string
  api_key :: string
  prompt :: string

record User =
  name_user :: string
  id_user :: string
  api_key_user :: "string option"

record Chat =
  id_chat :: "string option"
  user_id :: "string option"
  name :: string
  messages :: "Message list"
  settings :: "Settings option"
  loaded :: "bool option"
  temporary_name :: "string option"

definition new_Settings :: Settings where
  "new_Settings = \<lparr>determinism = 50, max_tokens = 1000, model = ''gpt-4'', api_key = [], prompt = []\<rparr>"

definition new_Chat :: Chat where
  "new_Chat = \<lparr>id_chat = None, user_id = None, name = [], messages = [],
     settings = Some new_Settings, loaded = Some False, temporary_name = Some []\<rparr>"

text \<open>Truthiness of an optional string: the string itself when it is non-empty.\<close>

definition truthy_string :: "string option \<Rightarrow> string option" where
  "truthy_string v = (case v of None \<Rightarrow> None | Some s \<Rightarrow> if s = [] then None else Some s)"

definition truthy_bool :: "bool option \<Rightarrow> bool" where
  "truthy_bool v = (case v of None \<Rightarrow> False | Some b \<Rightarrow> b)"

definition clamp :: "string \<Rightarrow> string" where
  "clamp v = (if length v > 200 then take 200 v else v)"

fun label_loop :: "Message list \<Rightarrow> string option" where
  "label_loop [] = None"
| "label_loop (m # ms) =
     (case truthy_string (message m) of Some t \<Rightarrow> Some (clamp t) | None \<Rightarrow> label_loop ms)"

definition label :: "Chat \<Rightarrow> string" where
  "label c =
     (if name c \<noteq> [] then name c
      else case truthy_string (map_option prompt (settings c)) of
        Some p \<Rightarrow> clamp p
      | None \<Rightarrow>
          (case label_loop (messages c) of
            Some t \<Rightarrow> t
          | None \<Rightarrow>
              (case truthy_string (temporary_name c) of
                Some t \<Rightarrow> t
              | None \<Rightarrow> ''New Chat'')))"

definition createEmptyChat :: Chat where
  "createEmptyChat = new_Chat\<lparr>loaded := Some True\<rparr>"


record LocalSaveInfo =
  user_info :: "User option"
  chat_info :: "Chat option"
  version :: "rat option"

section \<open>Array operations of JavaScript\<close>

text \<open>
  \<^verbatim>\<open>Array.indexOf\<close>: the position of the first element equal to the argument, \<open>-1\<close> when
  there is none. The source compares object identities; the model compares the values of the
  records, which agrees with it as long as distinct message objects differ in some field
  (their ids are fresh UUIDs).
\<close>

fun indexOf :: "'a list \<Rightarrow> 'a \<Rightarrow> int" where
  "indexOf [] x = - 1"
| "indexOf (y # ys) x =
     (if y = x then 0 else (let i = indexOf ys x in if i < 0 then - 1 else i + 1))"

text \<open>
  The array after \<^verbatim>\<open>xs.splice(start, deleteCount, ...items)\<close>: a negative start counts
  from the end, and both arguments are clamped to the array.
\<close>

definition splice_js :: "'a list \<Rightarrow> int \<Rightarrow> int \<Rightarrow> 'a list \<Rightarrow> 'a list" where
  "splice_js xs start deleteCount items =
     (let len = int (length xs);
          from = (if start < 0 then max (len + start) 0 else min start len);
          dc = min (max deleteCount 0) (len - from)
      in take (nat from) xs @ items @ drop (nat (from + dc)) xs)"

text \<open>
  The array after \<^verbatim>\<open>xs[i] = v\<close>. Inside the array the element is replaced, at its end the
  array grows by one, and a negative index sets a property that is no element. An index past
  the end would leave holes in the array, which a list does not have: the result is \<open>None\<close>.
\<close>

definition array_store :: "'a list \<Rightarrow> int \<Rightarrow> 'a \<Rightarrow> 'a list option" where
  "array_store xs i v =
     (if i < 0 then Some xs
      else if i < int (length xs) then Some (xs[nat i := v])
      else if i = int (length xs) then Some (xs @ [v])
      else None)"

section \<open>The application state\<close>

text \<open>
  Conversations are objects shared between \<^verbatim>\<open>chats\<close>, \<^verbatim>\<open>currentChat\<close>,
  \<^verbatim>\<open>unsavedChat\<close> and the closure of a streaming socket, and they are edited in place. The
  model keeps them in a store \<open>heap\<close> and holds references. \<open>nextRef\<close> is the next unused
  reference, taken by \<^verbatim>\<open>new Chat()\<close>.
\<close>

type_synonym ref = nat

record Request =
  messages_req :: "Message list"
  model_req :: string
  temperature :: rat
  prompt_req :: string
  id_req :: string
  max_tokens_req :: rat
  continuation :: "string option"
  api_key_req :: string

text \<open>
  The socket built by \<^verbatim>\<open>chat\<close>, as the bindings its handlers close over: the request, the
  conversation, the index of the target message, and the variable \<^verbatim>\<open>message\<close>, which the
  handlers reassign.
\<close>

record WebSocket =
  request :: Request
  chat_ws :: ref
  index :: int
  message_ws :: Message

text \<open>What the store does to the outside: transport, timers, notification and remote calls.\<close>

datatype event =
    Abort
  | Close WebSocket
  | Connect WebSocket
  | Send Request
  | Publish
  | ClearTimeout nat
  | SetTimeout nat
  | GetChat "string option"
  | PostChat Chat

text \<open>
  The fields of \<^verbatim>\<open>AppData\<close> that the operations below use (\<^verbatim>\<open>models\<close> and \<^verbatim>\<open>users\<close>
  are reference data they never touch), followed by the environment: the store of
  conversations, the browser's \<^verbatim>\<open>localStorage\<close> and the trace of events. \<open>dirtySave\<close> is the
  handle of the timer set last, written as its delay in milliseconds; \<open>publishCallback\<close>
  tells whether a callback is bound.
\<close>

record AppData =
  chats :: "ref list"
  user :: "User option"
  currentChat :: "ref option"
  unsavedChat :: "ref option"
  busy :: bool
  dirtySave :: "nat option"
  abortController :: "unit option"
  streamWebSocket :: "WebSocket option"
  publishCallback :: bool
  heap :: "ref \<Rightarrow> Chat"
  nextRef :: ref
  localStorage :: "string \<rightharpoonup> LocalSaveInfo"
  trace :: "event list"

definition new_AppData :: AppData where
  "new_AppData = \<lparr>chats = [], user = None, currentChat = None, unsavedChat = None,
     busy = False, dirtySave = None, abortController = None, streamWebSocket = None,
     publishCallback = False, heap = (\<lambda>_. new_Chat), nextRef = 0,
     localStorage = Map.empty, trace = []\<rparr>"

definition emit :: "event \<Rightarrow> AppData \<Rightarrow> AppData" where
  "emit e s = s\<lparr>trace := trace s @ [e]\<rparr>"

definition publish :: "AppData \<Rightarrow> AppData" where
  "publish s = (if publishCallback s then emit Publish s else s)"

definition dirty :: "bool \<Rightarrow> AppData \<Rightarrow> AppData" where
  "dirty saveNow s =
     (let s1 = (case dirtySave s of
                  Some t \<Rightarrow> (emit (ClearTimeout t) s)\<lparr>dirtySave := None\<rparr>
                | None \<Rightarrow> s);
          d = (if saveNow then 1 else 1500)
      in (emit (SetTimeout d) s1)\<lparr>dirtySave := Some d\<rparr>)"

definition isSaved :: "AppData \<Rightarrow> bool" where
  "isSaved s =
     (case currentChat s of
        None \<Rightarrow> False
      | Some r \<Rightarrow>
          (case user s of
             None \<Rightarrow> False
           | Some u \<Rightarrow>
               if truthy_string (id_chat (heap s r)) = None then False
               else if user_id (heap s r) \<noteq> Some (id_user u) then False
               else if \<not> truthy_bool (loaded (heap s r)) then False
               else True))"

text \<open>
  \<^verbatim>\<open>_doSave\<close>, run when the timer fires. The value written under \<^verbatim>\<open>"appData"\<close> is the
  snapshot itself, standing for its JSON text. The remote push is the event \<open>PostChat\<close>.
\<close>

definition doSave :: "AppData \<Rightarrow> AppData" where
  "doSave s =
     (let chatToSave = (if isSaved s \<and> unsavedChat s \<noteq> None then unsavedChat s else currentChat s);
          serialize = \<lparr>user_info = user s, chat_info = map_option (heap s) chatToSave,
                       version = Some 3\<rparr>;
          s1 = s\<lparr>localStorage := (localStorage s)(''appData'' \<mapsto> serialize)\<rparr>
      in if isSaved s1 then
           (case currentChat s1 of
              None \<Rightarrow> s1
            | Some r \<Rightarrow>
                (let c = (heap s1 r)\<lparr>temporary_name := Some (label (heap s1 r))\<rparr>
                 in emit (PostChat c) (s1\<lparr>heap := (heap s1)(r := c)\<rparr>)))
         else s1)"

text \<open>
  \<^verbatim>\<open>openChat\<close> up to its \<^verbatim>\<open>await fetch\<close>; \<open>fresh\<close> is the value that \<^verbatim>\<open>uuidv4()\<close>
  returns.
\<close>

definition openChat :: "string \<Rightarrow> ref option \<Rightarrow> AppData \<Rightarrow> AppData" where
  "openChat fresh chat s =
     (case chat of
        None \<Rightarrow>
          publish
            (if isSaved s then
               (case unsavedChat s of
                  Some d \<Rightarrow> s\<lparr>currentChat := Some d\<rparr>
                | None \<Rightarrow>
                    s\<lparr>currentChat := Some (nextRef s),
                      heap := (heap s)(nextRef s := new_Chat\<lparr>id_chat := Some fresh, loaded := Some True\<rparr>),
                      nextRef := Suc (nextRef s)\<rparr>)
               \<lparr>unsavedChat := None\<rparr>
             else s)
      | Some r \<Rightarrow>
          (let s1 = (if currentChat s \<noteq> Some r \<and> \<not> isSaved s
                     then s\<lparr>unsavedChat := currentChat s\<rparr> else s)
           in if truthy_bool (loaded (heap s1 r)) then publish (s1\<lparr>currentChat := Some r\<rparr>)
              else emit (GetChat (id_chat (heap s1 r))) (publish (s1\<lparr>currentChat := Some r\<rparr>))))"

definition cancel :: "AppData \<Rightarrow> AppData" where
  "cancel s =
     (let s1 = (case abortController s of
                  Some a \<Rightarrow> (emit Abort s)\<lparr>abortController := None\<rparr>
                | None \<Rightarrow> s);
          s2 = (case streamWebSocket s1 of
                  Some ws \<Rightarrow> (emit (Close ws) s1)\<lparr>streamWebSocket := None\<rparr>
                | None \<Rightarrow> s1)
      in dirty False (s2\<lparr>busy := False\<rparr>))"

text \<open>
  Assigning to the \<^verbatim>\<open>messages\<close> array of the conversation at \<open>r\<close>, for the edits in
  place. \<^verbatim>\<open>delete\<close> reads \<^verbatim>\<open>currentChat\<close> again after \<^verbatim>\<open>cancel\<close>, which does not
  assign it.
\<close>

definition set_messages :: "ref \<Rightarrow> Message list \<Rightarrow> AppData \<Rightarrow> AppData" where
  "set_messages r ms s = s\<lparr>heap := (heap s)(r := (heap s r)\<lparr>messages := ms\<rparr>)\<rparr>"

definition delete :: "Message \<Rightarrow> AppData \<Rightarrow> AppData" where
  "delete msg s =
     (case currentChat s of
        None \<Rightarrow> s
      | Some r \<Rightarrow>
          (let s1 = cancel s; ms = messages (heap s1 r); i = indexOf ms msg
           in dirty False (if i \<ge> 0 then set_messages r (splice_js ms i 1 []) s1 else s1)))"

definition insertMessage :: "Message option \<Rightarrow> Message \<Rightarrow> AppData \<Rightarrow> AppData" where
  "insertMessage oldMessage newMessage s =
     (case currentChat s of
        None \<Rightarrow> s
      | Some r \<Rightarrow>
          (let ms = messages (heap s r);
               i = (case oldMessage of None \<Rightarrow> 0 | Some old \<Rightarrow> indexOf ms old + 1)
           in dirty False (set_messages r (splice_js ms i 0 [newMessage]) s)))"

definition truncate :: "Message \<Rightarrow> AppData \<Rightarrow> AppData" where
  "truncate msg s =
     (case currentChat s of
        None \<Rightarrow> s
      | Some r \<Rightarrow>
          (let ms = messages (heap s r); i = indexOf ms msg
           in if i \<ge> 0 then set_messages r (splice_js ms i (int (length ms) - i) []) s else s))"

text \<open>
  A message given by its id, role and text alone, as the object literals of the application
  are.
\<close>

definition new_Message :: "string \<Rightarrow> string \<Rightarrow> string \<Rightarrow> Message" where
  "new_Message i r t = \<lparr>id_msg = i, role = r, message = Some t,
     cost_tokens_completion = None, cost_tokens_prompt = None, cost_usd = None,
     finish_reason = None, error = None, start_edited = None\<rparr>"

text \<open>
  \<^verbatim>\<open>chat\<close> up to the point where the socket is built. \<open>fresh\<close> is the value that
  \<^verbatim>\<open>uuidv4()\<close> returns for the placeholder message.
\<close>

definition chat ::
  "string \<Rightarrow> string \<Rightarrow> string \<Rightarrow> rat \<Rightarrow> rat \<Rightarrow> string \<Rightarrow> Message list option \<Rightarrow> Message option
     \<Rightarrow> AppData \<Rightarrow> AppData" where
  "chat fresh prompt' model' determinism' maxTokens api_key' messages' message' s =
     (let s1 = (cancel s)\<lparr>busy := True\<rparr>
      in case currentChat s1 of
           None \<Rightarrow> s1
         | Some r \<Rightarrow>
             (let msgs = (case messages' of None \<Rightarrow> messages (heap s1 r) | Some ms \<Rightarrow> ms);
                  placeholder = new_Message fresh ''assistant'' ''...'';
                  target = (case message' of None \<Rightarrow> placeholder | Some m \<Rightarrow> m);
                  cont = (case message' of None \<Rightarrow> Some [] | Some m \<Rightarrow> message m);
                  s2 = (case message' of
                          None \<Rightarrow> set_messages r (messages (heap s1 r) @ [placeholder]) s1
                        | Some m \<Rightarrow> s1);
                  req = \<lparr>messages_req = msgs, model_req = model',
                    temperature = ((100 - determinism') / 100) * 2, prompt_req = prompt',
                    id_req = id_msg target, max_tokens_req = maxTokens, continuation = cont,
                    api_key_req = api_key'\<rparr>;
                  ws = \<lparr>request = req, chat_ws = r,
                    index = indexOf (messages (heap s2 r)) target, message_ws = target\<rparr>
              in (emit (Connect ws) s2)\<lparr>streamWebSocket := Some ws\<rparr>))"

text \<open>
  The handlers of the socket. Each takes the socket whose event it handles; the two that
  reassign the closure's \<^verbatim>\<open>message\<close> return the socket with the new value. \<open>ev\<close> is the
  text that the error event becomes when it is appended to a string.
\<close>

definition onOpen :: "WebSocket \<Rightarrow> AppData \<Rightarrow> AppData" where
  "onOpen ws s = emit (Send (request ws)) s"

definition onClose :: "WebSocket \<Rightarrow> AppData \<Rightarrow> AppData" where
  "onClose ws s = dirty False (publish (s\<lparr>busy := False\<rparr>))"

definition onError :: "WebSocket \<Rightarrow> string \<Rightarrow> AppData \<Rightarrow> (WebSocket \<times> AppData) option" where
  "onError ws ev s =
     (let m = (message_ws ws)\<lparr>error := Some (''Websocket error: '' @ ev)\<rparr>
      in case array_store (messages (heap s (chat_ws ws))) (index ws) m of
           None \<Rightarrow> None
         | Some ms \<Rightarrow>
             Some (ws\<lparr>message_ws := m\<rparr>,
                   dirty False (publish ((set_messages (chat_ws ws) ms s)\<lparr>busy := False\<rparr>))))"

definition onMessage :: "WebSocket \<Rightarrow> Message \<Rightarrow> AppData \<Rightarrow> (WebSocket \<times> AppData) option" where
  "onMessage ws data s =
     (case array_store (messages (heap s (chat_ws ws))) (index ws) data of
        None \<Rightarrow> None
      | Some ms \<Rightarrow> Some (ws\<lparr>message_ws := data\<rparr>, publish (set_messages (chat_ws ws) ms s)))"

section \<open>Migration of the stored snapshot\<close>

text \<open>
  \<^verbatim>\<open>upgradeStoredData\<close> works on what \<^verbatim>\<open>JSON.parse\<close> returns. An object is the list of its
  properties in order; a property that was assigned \<^verbatim>\<open>undefined\<close> stays in the list with the
  value \<open>JUndefined\<close>.
\<close>

datatype json =
    JUndefined
  | JNull
  | JBool bool
  | JNum rat
  | JStr string
  | JArr "json list"
  | JObj "(string \<times> json) list"

text \<open>
  \<open>TypeError\<close> is the exception of JavaScript. \<open>Unmodelled\<close> marks a comparison that needs
  the conversion of a string, an array or an object to a number, which is not modelled.
\<close>

datatype js_error = TypeError | Unmodelled

text \<open>
  Reading one of the properties \<^verbatim>\<open>serializationVersion\<close>, \<^verbatim>\<open>messages\<close> and
  \<^verbatim>\<open>cost_tokens\<close>: it throws on \<^verbatim>\<open>null\<close> and \<^verbatim>\<open>undefined\<close>, and a value that is no
  object has none of the three.
\<close>

fun getProp :: "json \<Rightarrow> string \<Rightarrow> js_error + json" where
  "getProp JUndefined k = Inl TypeError"
| "getProp JNull k = Inl TypeError"
| "getProp (JObj kvs) k = Inr (case map_of kvs k of None \<Rightarrow> JUndefined | Some v \<Rightarrow> v)"
| "getProp j k = Inr JUndefined"

fun assign :: "(string \<times> json) list \<Rightarrow> string \<Rightarrow> json \<Rightarrow> (string \<times> json) list" where
  "assign [] k v = [(k, v)]"
| "assign ((k', v') # kvs) k v = (if k' = k then (k, v) # kvs else (k', v') # assign kvs k v)"

text \<open>Assigning to a property. The migration assigns to objects only.\<close>

fun setProp :: "json \<Rightarrow> string \<Rightarrow> json \<Rightarrow> json" where
  "setProp (JObj kvs) k v = JObj (assign kvs k v)"
| "setProp j k v = j"

fun truthy_json :: "json \<Rightarrow> bool" where
  "truthy_json JUndefined = False"
| "truthy_json JNull = False"
| "truthy_json (JBool b) = b"
| "truthy_json (JNum x) = (x \<noteq> 0)"
| "truthy_json (JStr s) = (s \<noteq> [])"
| "truthy_json (JArr xs) = True"
| "truthy_json (JObj kvs) = True"

text \<open>The loose comparison \<^verbatim>\<open>v == n\<close> with a number \<open>n\<close>.\<close>

fun looseEqNum :: "json \<Rightarrow> rat \<Rightarrow> js_error + bool" where
  "looseEqNum JUndefined n = Inr False"
| "looseEqNum JNull n = Inr False"
| "looseEqNum (JBool b) n = Inr ((if b then 1 else 0) = n)"
| "looseEqNum (JNum x) n = Inr (x = n)"
| "looseEqNum j n = Inl Unmodelled"

text \<open>The body of the loop over the messages, without the assignment to the version.\<close>

definition upgradeMessage :: "json \<Rightarrow> js_error + json" where
  "upgradeMessage m =
     (case getProp m ''cost_tokens'' of
        Inl e \<Rightarrow> Inl e
      | Inr v \<Rightarrow>
          if truthy_json v
          then Inr (setProp (setProp m ''cost_tokens_completion'' v) ''cost_tokens'' JUndefined)
          else Inr m)"

fun upgradeMessages :: "json list \<Rightarrow> js_error + json list" where
  "upgradeMessages [] = Inr []"
| "upgradeMessages (m # ms) =
     (case upgradeMessage m of
        Inl e \<Rightarrow> Inl e
      | Inr m' \<Rightarrow> (case upgradeMessages ms of Inl e \<Rightarrow> Inl e | Inr ms' \<Rightarrow> Inr (m' # ms')))"

text \<open>
  The first \<^verbatim>\<open>if\<close> of \<^verbatim>\<open>upgradeStoredData\<close>, taken when the version is 1. The version is
  set to 2 inside the loop, once per message: with no message it is not set. A string is
  iterable too; its characters have no \<^verbatim>\<open>cost_tokens\<close>.
\<close>

definition upgrade1 :: "json \<Rightarrow> js_error + json" where
  "upgrade1 source =
     (case getProp source ''messages'' of
        Inl e \<Rightarrow> Inl e
      | Inr (JArr ms) \<Rightarrow>
          (case upgradeMessages ms of
             Inl e \<Rightarrow> Inl e
           | Inr ms' \<Rightarrow>
               Inr (if ms = [] then source
                    else setProp (setProp source ''messages'' (JArr ms'))
                           ''serializationVersion'' (JNum 2)))
      | Inr (JStr cs) \<Rightarrow>
          Inr (if cs = [] then source else setProp source ''serializationVersion'' (JNum 2))
      | Inr _ \<Rightarrow> Inl TypeError)"

definition upgradeStoredData :: "json \<Rightarrow> js_error + json" where
  "upgradeStoredData source =
     (case getProp source ''serializationVersion'' of
        Inl e \<Rightarrow> Inl e
      | Inr v \<Rightarrow>
          (case looseEqNum v 1 of
             Inl e \<Rightarrow> Inl e
           | Inr is1 \<Rightarrow>
               (case (if is1 then upgrade1 source else Inr source) of
                  Inl e \<Rightarrow> Inl e
                | Inr source1 \<Rightarrow>
                    (case getProp source1 ''serializationVersion'' of
                       Inl e \<Rightarrow> Inl e
                     | Inr v2 \<Rightarrow>
                         (case looseEqNum v2 2 of
                            Inl e \<Rightarrow> Inl e
                          | Inr is2 \<Rightarrow>
                              Inr (if is2
                                   then JObj [(''chat'', source1), (''user'', JNull),
                                              (''serializationVersion'', JNum 3)]
                                   else source1))))))"


section \<open>Concrete inputs\<close>

text \<open>
  The states and blobs at which the properties below are evaluated. \<open>draft_state\<close> holds an
  unsaved conversation with one message and no user; in \<open>saved_state\<close> the user \<open>alice\<close> has
  her saved conversation open, and the store holds a second, unsaved conversation, which
  \<open>stashed_state\<close> has stashed as the draft. \<open>streaming_state\<close> is \<open>draft_state\<close> after a
  request was sent from it.
\<close>

definition hello :: Message where
  "hello = new_Message ''m1'' ''user'' ''Hello''"

definition draft_state :: AppData where
  "draft_state = new_AppData\<lparr>currentChat := Some 0, nextRef := 1,
     heap := (\<lambda>_. new_Chat)(0 := new_Chat\<lparr>messages := [hello]\<rparr>)\<rparr>"

definition alice :: User where
  "alice = \<lparr>name_user = ''Alice'', id_user = ''u1'', api_key_user = None\<rparr>"

definition saved_state :: AppData where
  "saved_state = new_AppData\<lparr>user := Some alice, currentChat := Some 0, nextRef := 2,
     heap := (\<lambda>_. new_Chat)
       (0 := new_Chat\<lparr>id_chat := Some ''c1'', user_id := Some ''u1'', loaded := Some True\<rparr>,
        1 := new_Chat\<lparr>messages := [hello]\<rparr>)\<rparr>"

definition stashed_state :: AppData where
  "stashed_state = saved_state\<lparr>unsavedChat := Some 1\<rparr>"

definition streaming_state :: AppData where
  "streaming_state = chat ''a1'' ''Be brief'' ''gpt-4'' 50 1000 ''key'' None None draft_state"

definition empty_v1_blob :: json where
  "empty_v1_blob = JObj [(''name'', JStr ''Old chat''), (''messages'', JArr []),
     (''serializationVersion'', JNum 1)]"

definition v1_blob :: json where
  "v1_blob = JObj [(''name'', JStr ''Old chat''),
     (''messages'', JArr [JObj [(''id'', JStr ''m1''), (''role'', JStr ''assistant''),
        (''message'', JStr ''Hi''), (''cost_tokens'', JNum 7)]]),
     (''serializationVersion'', JNum 1)]"

definition long_text :: string where
  "long_text = replicate 201 (CHR ''x'')"

section \<open>Labels\<close>

lemma truthy_string_Some_iff: "truthy_string v = Some t \<longleftrightarrow> v = Some t \<and> t \<noteq> []"
  by (auto simp: truthy_string_def split: option.splits if_splits)

lemma truthy_string_None_iff: "truthy_string v = None \<longleftrightarrow> \<not> (\<exists>t. v = Some t \<and> t \<noteq> [])"
  by (auto simp: truthy_string_def split: option.splits if_splits)

lemma clamp_take: "clamp v = take 200 v"
  by (simp add: clamp_def)

lemma has_text_eq:
  "(\<lambda>m. \<exists>t. message m = Some t \<and> t \<noteq> []) = (\<lambda>m. truthy_string (message m) \<noteq> None)"
  by (rule ext) (simp add: truthy_string_None_iff)

lemma label_loop_find_aux:
  "label_loop ms =
     (case find (\<lambda>m. truthy_string (message m) \<noteq> None) ms of
        None \<Rightarrow> None
      | Some m \<Rightarrow> Some (take 200 (the (message m))))"
proof (induction ms)
  case Nil
  show ?case by simp
next
  case (Cons m ms)
  show ?case
  proof (cases "truthy_string (message m)")
    case None
    with Cons show ?thesis by simp
  next
    case (Some t)
    then have "message m = Some t"
      by (simp add: truthy_string_Some_iff)
    with Some show ?thesis by (simp add: clamp_take)
  qed
qed

lemma label_loop_find:
  "label_loop ms =
     (case find (\<lambda>m. \<exists>t. message m = Some t \<and> t \<noteq> []) ms of
        None \<Rightarrow> None
      | Some m \<Rightarrow> Some (take 200 (the (message m))))"
  by (simp only: has_text_eq label_loop_find_aux)

lemma label_loop_length: "label_loop ms = Some t \<Longrightarrow> length t \<le> 200"
  by (auto simp: label_loop_find_aux split: option.splits)

lemma label_loop_None_aux:
  "label_loop ms = None \<longleftrightarrow> (\<forall>m \<in> set ms. truthy_string (message m) = None)"
  by (induction ms) (auto split: option.splits)

lemma label_loop_None_iff:
  "label_loop ms = None \<longleftrightarrow> \<not> (\<exists>m \<in> set ms. \<exists>t. message m = Some t \<and> t \<noteq> [])"
  unfolding label_loop_None_aux truthy_string_None_iff by blast

text \<open>
  Claim C8. For every conversation, \<open>label\<close> returns, in strict priority order: the explicit name
  if it is non-empty; else the first 200 characters of the settings prompt if that is
  non-empty; else the first 200 characters of the first message that has text; else the
  \<open>temporary_name\<close> if it is non-empty; else the placeholder "New Chat". In the prompt and
  message cases the result is never longer than 200 characters.
\<close>

theorem label_priority:
  "label c =
     (if name c \<noteq> [] then name c
      else if \<exists>st. settings c = Some st \<and> prompt st \<noteq> [] then take 200 (prompt (the (settings c)))
      else case find (\<lambda>m. \<exists>t. message m = Some t \<and> t \<noteq> []) (messages c) of
             Some m \<Rightarrow> take 200 (the (message m))
           | None \<Rightarrow>
               (if \<exists>t. temporary_name c = Some t \<and> t \<noteq> [] then the (temporary_name c)
                else ''New Chat''))
   \<and> (name c = [] \<and> ((\<exists>st. settings c = Some st \<and> prompt st \<noteq> [])
          \<or> (\<exists>m \<in> set (messages c). \<exists>t. message m = Some t \<and> t \<noteq> []))
        \<longrightarrow> length (label c) \<le> 200)"
proof (intro conjI impI)
  let ?rest = "case find (\<lambda>m. \<exists>t. message m = Some t \<and> t \<noteq> []) (messages c) of
             Some m \<Rightarrow> take 200 (the (message m))
           | None \<Rightarrow>
               (if \<exists>t. temporary_name c = Some t \<and> t \<noteq> [] then the (temporary_name c)
                else ''New Chat'')"
  have tmp: "(case truthy_string (temporary_name c) of Some t \<Rightarrow> t | None \<Rightarrow> ''New Chat'') =
      (if \<exists>t. temporary_name c = Some t \<and> t \<noteq> [] then the (temporary_name c) else ''New Chat'')"
  proof (cases "truthy_string (temporary_name c)")
    case None
    then have h: "\<not> (\<exists>t. temporary_name c = Some t \<and> t \<noteq> [])"
      using truthy_string_None_iff [of "temporary_name c"] by blast
    show ?thesis
      by (simp only: None option.case if_not_P [OF h])
  next
    case (Some t)
    then have "temporary_name c = Some t" "t \<noteq> []"
      by (simp_all add: truthy_string_Some_iff)
    with Some show ?thesis by simp
  qed
  have rest: "(case label_loop (messages c) of Some t \<Rightarrow> t
      | None \<Rightarrow> (case truthy_string (temporary_name c) of Some t \<Rightarrow> t | None \<Rightarrow> ''New Chat'')) = ?rest"
    by (simp only: tmp label_loop_find split: option.splits) simp
  show "label c =
     (if name c \<noteq> [] then name c
      else if \<exists>st. settings c = Some st \<and> prompt st \<noteq> [] then take 200 (prompt (the (settings c)))
      else ?rest)"
  proof (cases "truthy_string (map_option prompt (settings c))")
    case (Some p)
    then have "\<exists>st. settings c = Some st \<and> prompt st \<noteq> []" "p = prompt (the (settings c))"
      by (auto simp: truthy_string_Some_iff)
    with Some show ?thesis by (simp add: label_def clamp_take)
  next
    case None
    then have np: "\<not> (\<exists>st. settings c = Some st \<and> prompt st \<noteq> [])"
      by (auto simp: truthy_string_None_iff)
    have h: "label c = (if name c \<noteq> [] then name c else ?rest)"
      unfolding label_def None using rest by simp
    show ?thesis by (simp only: h if_not_P [OF np])
  qed
next
  assume a: "name c = [] \<and> ((\<exists>st. settings c = Some st \<and> prompt st \<noteq> [])
          \<or> (\<exists>m \<in> set (messages c). \<exists>t. message m = Some t \<and> t \<noteq> []))"
  show "length (label c) \<le> 200"
  proof (cases "truthy_string (map_option prompt (settings c))")
    case (Some p)
    with a show ?thesis by (simp add: label_def clamp_take)
  next
    case None
    with a have "\<exists>m \<in> set (messages c). \<exists>t. message m = Some t \<and> t \<noteq> []"
      by (auto simp: truthy_string_None_iff)
    then obtain t where t: "label_loop (messages c) = Some t"
      using label_loop_None_iff [of "messages c"] by (cases "label_loop (messages c)") auto
    with a None label_loop_length [OF t] show ?thesis by (simp add: label_def)
  qed
qed

theorem label_priority_witness:
  "label (new_Chat\<lparr>settings := Some (new_Settings\<lparr>prompt := ''Hi there''\<rparr>)\<rparr>) = ''Hi there''
   \<and> label (new_Chat\<lparr>messages := [new_Message ''m1'' ''user'' long_text]\<rparr>) = replicate 200 (CHR ''x'')
   \<and> length (label (new_Chat\<lparr>messages := [new_Message ''m1'' ''user'' long_text]\<rparr>)) = 200
   \<and> label (new_Chat\<lparr>temporary_name := Some ''Foo''\<rparr>) = ''Foo''
   \<and> label new_Chat = ''New Chat''
   \<and> label (new_Chat\<lparr>name := ''Plans'', settings := Some (new_Settings\<lparr>prompt := ''Hi there''\<rparr>)\<rparr>) = ''Plans''"
  using label_priority [of "new_Chat\<lparr>settings := Some (new_Settings\<lparr>prompt := ''Hi there''\<rparr>)\<rparr>"]
    label_priority [of "new_Chat\<lparr>messages := [new_Message ''m1'' ''user'' long_text]\<rparr>"]
    label_priority [of "new_Chat\<lparr>temporary_name := Some ''Foo''\<rparr>"]
    label_priority [of new_Chat]
    label_priority [of "new_Chat\<lparr>name := ''Plans'', settings := Some (new_Settings\<lparr>prompt := ''Hi there''\<rparr>)\<rparr>"]
  by (simp add: new_Chat_def new_Settings_def new_Message_def long_text_def)

section \<open>The conversation store\<close>

lemmas ev = new_Message_def hello_def draft_state_def saved_state_def stashed_state_def
  streaming_state_def alice_def new_AppData_def new_Chat_def new_Settings_def
  isSaved_def truthy_string_def truthy_bool_def openChat_def publish_def emit_def dirty_def
  cancel_def set_messages_def chat_def onMessage_def onOpen_def insertMessage_def truncate_def
  delete_def array_store_def splice_js_def doSave_def Let_def

text \<open>
  Claim C1. In every state of the store, \<open>isSaved\<close> is true if and only if a current
  conversation exists, the active user is set, the conversation's id is a non-empty string,
  its owning-user id equals the active user's id, and it is marked loaded; in every other
  state it is false.
\<close>

theorem isSaved_iff:
  "isSaved s \<longleftrightarrow>
     (\<exists>r u. currentChat s = Some r \<and> user s = Some u
        \<and> (\<exists>i. id_chat (heap s r) = Some i \<and> i \<noteq> [])
        \<and> user_id (heap s r) = Some (id_user u)
        \<and> loaded (heap s r) = Some True)"
  by (auto simp: isSaved_def truthy_string_def truthy_bool_def split: option.splits if_splits)

lemma isSaved_createEmptyChat:
  "currentChat s = Some r \<Longrightarrow> heap s r = createEmptyChat \<Longrightarrow> \<not> isSaved s"
  by (simp add: isSaved_def createEmptyChat_def new_Chat_def truthy_string_def split: option.splits)

lemma isSaved_localStorage: "isSaved (s\<lparr>localStorage := l\<rparr>) = isSaved s"
  by (simp add: isSaved_def split: option.splits)

lemma localStorage_doSave:
  "localStorage (doSave s) =
     (localStorage s)(''appData'' \<mapsto>
        \<lparr>user_info = user s,
         chat_info = map_option (heap s)
           (if isSaved s \<and> unsavedChat s \<noteq> None then unsavedChat s else currentChat s),
         version = Some 3\<rparr>)"
  by (cases "currentChat s") (simp_all add: doSave_def Let_def isSaved_localStorage emit_def)

text \<open>
  Claim C2. In every state, \<open>doSave\<close> writes under the single key "appData" the snapshot made
  of the active user, schema version 3 and a conversation: the stashed unsaved draft when the
  current conversation is save-eligible and a draft exists, the current conversation
  otherwise. The entry written does not depend on what was stored before.
\<close>

theorem doSave_snapshot:
  "localStorage (doSave s) =
     (localStorage s)(''appData'' \<mapsto>
        \<lparr>user_info = user s,
         chat_info =
           (if isSaved s
            then (case unsavedChat s of
                    Some d \<Rightarrow> Some (heap s d)
                  | None \<Rightarrow> map_option (heap s) (currentChat s))
            else map_option (heap s) (currentChat s)),
         version = Some 3\<rparr>)
   \<and> localStorage (doSave (s\<lparr>localStorage := old\<rparr>)) ''appData'' = localStorage (doSave s) ''appData''"
proof
  show "localStorage (doSave s) =
     (localStorage s)(''appData'' \<mapsto>
        \<lparr>user_info = user s,
         chat_info =
           (if isSaved s
            then (case unsavedChat s of
                    Some d \<Rightarrow> Some (heap s d)
                  | None \<Rightarrow> map_option (heap s) (currentChat s))
            else map_option (heap s) (currentChat s)),
         version = Some 3\<rparr>)"
    by (cases "unsavedChat s") (auto simp: localStorage_doSave)
  show "localStorage (doSave (s\<lparr>localStorage := old\<rparr>)) ''appData'' = localStorage (doSave s) ''appData''"
    by (auto simp: localStorage_doSave isSaved_localStorage)
qed

text \<open>
  Claim C3, as the code has it. When the current conversation is save-eligible,
  \<open>openChat\<close> of no conversation makes the stashed unsaved draft current if there is one, and
  otherwise makes a new empty conversation with a fresh id, marked loaded, current; in both
  cases the stash is cleared. When the current conversation is not save-eligible, or there is
  none, the current conversation, the stash and the store are left as they are. In every case
  the subscriber, if one is bound, is notified once, and nothing else of the state changes:
  each case is given as an equation for the whole state.
\<close>

theorem openChat_none:
  "(isSaved s \<longrightarrow>
      unsavedChat (openChat fresh None s) = None
      \<and> (case unsavedChat s of
            Some d \<Rightarrow>
              currentChat (openChat fresh None s) = Some d
              \<and> heap (openChat fresh None s) = heap s
              \<and> openChat fresh None s =
                  s\<lparr>currentChat := Some d, unsavedChat := None,
                    trace := trace s @ (if publishCallback s then [Publish] else [])\<rparr>
          | None \<Rightarrow>
              currentChat (openChat fresh None s) = Some (nextRef s)
              \<and> heap (openChat fresh None s) (nextRef s)
                  = new_Chat\<lparr>id_chat := Some fresh, loaded := Some True\<rparr>
              \<and> openChat fresh None s =
                  s\<lparr>currentChat := Some (nextRef s), unsavedChat := None,
                    heap := (heap s)(nextRef s := new_Chat\<lparr>id_chat := Some fresh, loaded := Some True\<rparr>),
                    nextRef := Suc (nextRef s),
                    trace := trace s @ (if publishCallback s then [Publish] else [])\<rparr>))
   \<and> (\<not> isSaved s \<longrightarrow>
        currentChat (openChat fresh None s) = currentChat s
        \<and> unsavedChat (openChat fresh None s) = unsavedChat s
        \<and> heap (openChat fresh None s) = heap s
        \<and> openChat fresh None s =
            s\<lparr>trace := trace s @ (if publishCallback s then [Publish] else [])\<rparr>)"
  by (auto simp: openChat_def publish_def emit_def split: option.splits)

theorem openChat_none_witness:
  "isSaved stashed_state
   \<and> currentChat (openChat ''c2'' None stashed_state) = Some 1
   \<and> unsavedChat (openChat ''c2'' None stashed_state) = None
   \<and> openChat ''c2'' None stashed_state = stashed_state\<lparr>currentChat := Some 1, unsavedChat := None\<rparr>
   \<and> isSaved saved_state
   \<and> currentChat (openChat ''c2'' None saved_state) = Some 2
   \<and> heap (openChat ''c2'' None saved_state) 2 = new_Chat\<lparr>id_chat := Some ''c2'', loaded := Some True\<rparr>
   \<and> trace (openChat ''c2'' None (saved_state\<lparr>publishCallback := True\<rparr>)) = [Publish]
   \<and> \<not> isSaved draft_state
   \<and> currentChat (openChat ''c2'' None draft_state) = Some 0
   \<and> openChat ''c2'' None (draft_state\<lparr>publishCallback := True\<rparr>)
       = draft_state\<lparr>publishCallback := True, trace := [Publish]\<rparr>"
  using openChat_none [of stashed_state "''c2''"] openChat_none [of saved_state "''c2''"]
    openChat_none [of "saved_state\<lparr>publishCallback := True\<rparr>" "''c2''"]
    openChat_none [of draft_state "''c2''"]
    openChat_none [of "draft_state\<lparr>publishCallback := True\<rparr>" "''c2''"]
  by (simp add: ev)

text \<open>
  Claim C3 as stated fails in \<open>draft_state\<close>: no draft is stashed and the current conversation
  is not save-eligible, yet after \<open>openChat\<close> of no conversation the current conversation is
  the old one, with no id and with its message, not a new empty one.
\<close>

theorem openChat_none_counterexample:
  "\<not> (isSaved draft_state \<and> unsavedChat draft_state \<noteq> None)
   \<and> currentChat (openChat ''c2'' None draft_state) = Some 0
   \<and> id_chat (heap (openChat ''c2'' None draft_state) 0) = None
   \<and> messages (heap (openChat ''c2'' None draft_state) 0) = [hello]
   \<and> openChat ''c2'' None draft_state = draft_state"
  by (simp add: ev)

section \<open>Edits of the message list\<close>

lemma cancel_currentChat: "currentChat (cancel s) = currentChat s"
  by (simp add: cancel_def dirty_def emit_def Let_def split: option.splits)

lemma cancel_heap: "heap (cancel s) = heap s"
  by (simp add: cancel_def dirty_def emit_def Let_def split: option.splits)

lemma cancel_trace:
  "trace (cancel s) =
       trace s @ (case abortController s of None \<Rightarrow> [] | Some a \<Rightarrow> [Abort])
         @ (case streamWebSocket s of None \<Rightarrow> [] | Some ws \<Rightarrow> [Close ws])
         @ (case dirtySave s of None \<Rightarrow> [] | Some t \<Rightarrow> [ClearTimeout t])
         @ [SetTimeout 1500]"
  by (simp add: cancel_def dirty_def emit_def Let_def split: option.splits)

lemma dirty_trace:
  "trace (dirty b s) =
     trace s @ (case dirtySave s of None \<Rightarrow> [] | Some t \<Rightarrow> [ClearTimeout t])
       @ [SetTimeout (if b then 1 else 1500)]"
  by (simp add: dirty_def emit_def Let_def split: option.splits)

lemma insertMessage_dirty:
  assumes "currentChat s = Some r"
  shows "messages (heap (insertMessage old new s) r) =
            splice_js (messages (heap s r))
              (case old of None \<Rightarrow> 0 | Some m \<Rightarrow> indexOf (messages (heap s r)) m + 1) 0 [new]"
    and "trace (insertMessage old new s) =
           trace s @ (case dirtySave s of None \<Rightarrow> [] | Some t \<Rightarrow> [ClearTimeout t])
             @ [SetTimeout 1500]"
  using assms
  by (simp_all add: insertMessage_def dirty_trace Let_def set_messages_def dirty_def emit_def split: option.splits)

lemma delete_dirty:
  assumes "currentChat s = Some r"
  shows "messages (heap (delete msg s) r) =
            (if indexOf (messages (heap s r)) msg \<ge> 0
             then splice_js (messages (heap s r)) (indexOf (messages (heap s r)) msg) 1 []
             else messages (heap s r))"
    and "trace (delete msg s) = trace (cancel s) @ [ClearTimeout 1500, SetTimeout 1500]"
  using assms
  by (simp_all add: delete_def Let_def dirty_trace set_messages_def cancel_def dirty_def emit_def
      split: option.splits)

lemma truncate_not_dirty:
  "trace (truncate msg s) = trace s" "dirtySave (truncate msg s) = dirtySave s"
  by (simp_all add: truncate_def Let_def set_messages_def split: option.splits)

text \<open>
  Claim C5 says that \<open>insertMessage\<close>, \<open>delete\<close> and \<open>truncate\<close> each schedule the flush after
  their edit. The first two do (\<open>insertMessage_dirty\<close>, \<open>delete_dirty\<close>); \<open>truncate\<close> never
  sets a timer (\<open>truncate_not_dirty\<close>). In \<open>draft_state\<close>, where no timer is pending,
  truncating at the only message empties the list and leaves no timer and no event.
\<close>

theorem truncate_no_flush:
  "messages (heap draft_state 0) = [hello]
   \<and> messages (heap (truncate hello draft_state) 0) = []
   \<and> dirtySave (truncate hello draft_state) = None
   \<and> trace (truncate hello draft_state) = []"
  by (simp add: ev)

section \<open>The streaming exchange\<close>

text \<open>
  Claim C7. \<open>cancel\<close> never throws. In every state it leaves the busy flag false and both
  transport handles cleared, and it sets the timer of the flush, after aborting and closing
  the handles that were set. When no exchange is outstanding nothing is aborted or closed: the
  state changes in the busy flag and the timer only.
\<close>

theorem cancel_effect:
  "busy (cancel s) = False
   \<and> abortController (cancel s) = None
   \<and> streamWebSocket (cancel s) = None
   \<and> dirtySave (cancel s) = Some 1500
   \<and> trace (cancel s) =
       trace s @ (case abortController s of None \<Rightarrow> [] | Some a \<Rightarrow> [Abort])
         @ (case streamWebSocket s of None \<Rightarrow> [] | Some ws \<Rightarrow> [Close ws])
         @ (case dirtySave s of None \<Rightarrow> [] | Some t \<Rightarrow> [ClearTimeout t])
         @ [SetTimeout 1500]
   \<and> (abortController s = None \<and> streamWebSocket s = None \<longrightarrow>
        cancel s = s\<lparr>busy := False, dirtySave := Some 1500,
          trace := trace s @ (case dirtySave s of None \<Rightarrow> [] | Some t \<Rightarrow> [ClearTimeout t])
                     @ [SetTimeout 1500]\<rparr>)"
  by (auto simp: cancel_def dirty_def emit_def Let_def split: option.splits)

theorem cancel_effect_witness:
  "abortController (new_AppData\<lparr>busy := True\<rparr>) = None
   \<and> streamWebSocket (new_AppData\<lparr>busy := True\<rparr>) = None
   \<and> cancel (new_AppData\<lparr>busy := True\<rparr>)
       = new_AppData\<lparr>dirtySave := Some 1500, trace := [SetTimeout 1500]\<rparr>"
  using cancel_effect [of "new_AppData\<lparr>busy := True\<rparr>"]
  by (simp add: new_AppData_def)

lemma onMessage_in_place:
  "(case streamWebSocket streaming_state of
      None \<Rightarrow> False
    | Some ws \<Rightarrow>
        (case onMessage ws (new_Message ''a1'' ''assistant'' ''Hi'') streaming_state of
           None \<Rightarrow> False
         | Some (ws', s') \<Rightarrow>
             messages (heap s' 0) = [hello, new_Message ''a1'' ''assistant'' ''Hi'']
             \<and> message_ws ws' = new_Message ''a1'' ''assistant'' ''Hi''))"
  by (simp add: ev)

text \<open>
  Claim C4 says that a response frame is applied to the message found by its id when the
  frame arrives. \<open>onMessage\<close> writes at the index captured when the request was sent. In
  \<open>streaming_state\<close> the target, with id "a1", is at index 1; a message inserted at the front
  moves it to index 2, and the next frame overwrites the user's message at index 1 while the
  target keeps its provisional text.
\<close>

theorem onMessage_captured_index:
  "(case streamWebSocket streaming_state of
      None \<Rightarrow> False
    | Some ws \<Rightarrow>
        id_req (request ws) = ''a1'' \<and> index ws = 1
        \<and> messages (heap streaming_state 0) = [hello, new_Message ''a1'' ''assistant'' ''...'']
        \<and> (case onMessage ws (new_Message ''a1'' ''assistant'' ''Hi'')
                   (insertMessage None (new_Message ''m0'' ''system'' ''Note'') streaming_state) of
              None \<Rightarrow> False
            | Some (ws', s') \<Rightarrow>
                messages (heap s' 0) =
                  [new_Message ''m0'' ''system'' ''Note'',
                   new_Message ''a1'' ''assistant'' ''Hi'',
                   new_Message ''a1'' ''assistant'' ''...'']))"
  by (simp add: ev)

text \<open>
  Claim C9. For every integer determinism from 0 to 100, \<open>chat\<close> on a state with a current
  conversation builds a socket whose request, the frame sent when the socket opens, has the
  temperature \<open>(100 - determinism) / 100 * 2\<close>: 0 for determinism 100, 1 for 50 and 2 for 0.
\<close>

theorem chat_temperature:
  assumes "currentChat s = Some r" and "0 \<le> d" and "d \<le> 100"
  shows "\<exists>ws. streamWebSocket (chat fresh p m (of_int d) mt k msgs msg s) = Some ws
     \<and> (\<forall>s'. trace (onOpen ws s') = trace s' @ [Send (request ws)])
     \<and> temperature (request ws) = (100 - of_int d) / 100 * 2
     \<and> (d = 100 \<longrightarrow> temperature (request ws) = 0)
     \<and> (d = 50 \<longrightarrow> temperature (request ws) = 1)
     \<and> (d = 0 \<longrightarrow> temperature (request ws) = 2)"
  using assms
  by (simp add: chat_def cancel_currentChat Let_def onOpen_def emit_def)

theorem chat_temperature_witness:
  "currentChat draft_state = Some 0
   \<and> map_option (\<lambda>ws. temperature (request ws))
        (streamWebSocket (chat ''a1'' ''Be brief'' ''gpt-4'' (of_int 100) 1000 ''key'' None None draft_state))
       = Some 0
   \<and> map_option (\<lambda>ws. temperature (request ws))
        (streamWebSocket (chat ''a1'' ''Be brief'' ''gpt-4'' (of_int 50) 1000 ''key'' None None draft_state))
       = Some 1
   \<and> map_option (\<lambda>ws. temperature (request ws))
        (streamWebSocket (chat ''a1'' ''Be brief'' ''gpt-4'' (of_int 0) 1000 ''key'' None None draft_state))
       = Some 2"
proof -
  have c: "currentChat draft_state = Some 0"
    by (simp add: draft_state_def new_AppData_def)
  from chat_temperature [OF c, of 100] chat_temperature [OF c, of 50] chat_temperature [OF c, of 0] c
  show ?thesis by fastforce
qed

text \<open>
  Claim C10. When there is no current conversation, \<open>chat\<close> does what \<open>cancel\<close> does and sets
  the busy flag: it builds no socket, sends no frame and leaves every conversation as it is,
  and the busy flag is true when it returns.
\<close>

theorem chat_without_current:
  assumes "currentChat s = None"
  shows "chat fresh p m d mt k msgs msg s = (cancel s)\<lparr>busy := True\<rparr>
     \<and> busy (chat fresh p m d mt k msgs msg s) = True
     \<and> streamWebSocket (chat fresh p m d mt k msgs msg s) = None
     \<and> heap (chat fresh p m d mt k msgs msg s) = heap s
     \<and> trace (chat fresh p m d mt k msgs msg s) =
         trace s @ (case abortController s of None \<Rightarrow> [] | Some a \<Rightarrow> [Abort])
           @ (case streamWebSocket s of None \<Rightarrow> [] | Some ws \<Rightarrow> [Close ws])
           @ (case dirtySave s of None \<Rightarrow> [] | Some t \<Rightarrow> [ClearTimeout t])
           @ [SetTimeout 1500]"
proof -
  have "chat fresh p m d mt k msgs msg s = (cancel s)\<lparr>busy := True\<rparr>"
    using assms by (simp add: chat_def cancel_currentChat Let_def)
  moreover have "streamWebSocket (cancel s) = None"
    by (simp add: cancel_def dirty_def emit_def Let_def split: option.splits)
  ultimately show ?thesis
    by (simp add: cancel_heap cancel_trace)
qed

theorem chat_without_current_witness:
  "currentChat new_AppData = None
   \<and> busy (chat ''a1'' ''Be brief'' ''gpt-4'' 50 1000 ''key'' None None new_AppData) = True
   \<and> streamWebSocket (chat ''a1'' ''Be brief'' ''gpt-4'' 50 1000 ''key'' None None new_AppData) = None
   \<and> trace (chat ''a1'' ''Be brief'' ''gpt-4'' 50 1000 ''key'' None None new_AppData) = [SetTimeout 1500]"
proof -
  have c: "currentChat new_AppData = None"
    by (simp add: new_AppData_def)
  have f: "abortController new_AppData = None" "streamWebSocket new_AppData = None"
    "dirtySave new_AppData = None" "trace new_AppData = []"
    by (simp_all add: new_AppData_def)
  let ?s = "chat ''a1'' ''Be brief'' ''gpt-4'' 50 1000 ''key'' None None new_AppData"
  from chat_without_current [OF c, of "''a1''" "''Be brief''" "''gpt-4''" 50 1000 "''key''" None None]
  have "busy ?s = True" and "streamWebSocket ?s = None"
    and "trace ?s = trace new_AppData
           @ (case abortController new_AppData of None \<Rightarrow> [] | Some a \<Rightarrow> [Abort])
           @ (case streamWebSocket new_AppData of None \<Rightarrow> [] | Some ws \<Rightarrow> [Close ws])
           @ (case dirtySave new_AppData of None \<Rightarrow> [] | Some t \<Rightarrow> [ClearTimeout t])
           @ [SetTimeout 1500]"
    by blast+
  with c f show ?thesis by simp
qed

section \<open>Migration\<close>

lemma map_of_assign: "map_of (assign kvs k v) k' = (if k' = k then Some v else map_of kvs k')"
  by (induction kvs) auto

lemma getProp_setProp_same: "getProp (setProp (JObj kvs) k v) k = Inr v"
  by (simp add: map_of_assign)

lemma looseEqNum_1_not_2: "looseEqNum v 1 = Inr True \<Longrightarrow> looseEqNum v 2 = Inr False"
  by (cases v) (auto split: if_splits)

lemma getProp_object: "getProp x k = Inr v \<Longrightarrow> v \<noteq> JUndefined \<Longrightarrow> \<exists>kvs. x = JObj kvs"
  by (cases x) auto

lemma upgrade1_result:
  assumes "upgrade1 (JObj kvs) = Inr y"
  shows "y = JObj kvs \<or> getProp y ''serializationVersion'' = Inr (JNum 2)"
  using assms
  by (auto simp: upgrade1_def map_of_assign split: sum.splits json.splits if_splits option.splits)

lemma upgradeStoredData_wrapper:
  "upgradeStoredData (JObj [(''chat'', c), (''user'', JNull), (''serializationVersion'', JNum 3)])
     = Inr (JObj [(''chat'', c), (''user'', JNull), (''serializationVersion'', JNum 3)])"
  by (simp add: upgradeStoredData_def)

lemma upgradeStoredData_idem:
  assumes "upgradeStoredData x = Inr y"
  shows "upgradeStoredData y = Inr y"
proof -
  from assms obtain v is1 source1 v2 is2 where
    g1: "getProp x ''serializationVersion'' = Inr v" and
    l1: "looseEqNum v 1 = Inr is1" and
    u: "(if is1 then upgrade1 x else Inr x) = Inr source1" and
    g2: "getProp source1 ''serializationVersion'' = Inr v2" and
    l2: "looseEqNum v2 2 = Inr is2" and
    y: "y = (if is2 then JObj [(''chat'', source1), (''user'', JNull),
                                (''serializationVersion'', JNum 3)] else source1)"
    by (auto simp: upgradeStoredData_def split: sum.splits)
  show ?thesis
  proof (cases is2)
    case True
    with y show ?thesis by (simp add: upgradeStoredData_wrapper)
  next
    case False
    with y have ys: "y = source1" by simp
    have same: "source1 = x"
    proof (cases is1)
      case False
      with u show ?thesis by simp
    next
      case True
      with l1 have "v \<noteq> JUndefined" by auto
      with g1 obtain kvs where x: "x = JObj kvs" using getProp_object by blast
      from True u x have "upgrade1 (JObj kvs) = Inr source1" by simp
      from upgrade1_result [OF this] g2 l2 \<open>\<not> is2\<close> x show ?thesis by auto
    qed
    have "looseEqNum v 2 = Inr False"
    proof (cases is1)
      case True
      with l1 show ?thesis by (simp add: looseEqNum_1_not_2)
    next
      case False
      from same g1 g2 have "v2 = v" by simp
      with l2 \<open>\<not> is2\<close> show ?thesis by simp
    qed
    moreover have "(if is1 then upgrade1 x else Inr x) = Inr x"
      using u same by simp
    ultimately have "upgradeStoredData x = Inr x"
      using g1 l1 by (simp add: upgradeStoredData_def)
    with ys same show ?thesis by simp
  qed
qed

lemma upgradeStoredData_v1_nonempty:
  assumes "map_of kvs ''serializationVersion'' = Some (JNum 1)"
    and "map_of kvs ''messages'' = Some (JArr (m # ms))"
    and "upgradeMessages (m # ms) = Inr ms'"
  shows "upgradeStoredData (JObj kvs) =
     Inr (JObj [(''chat'', JObj (assign (assign kvs ''messages'' (JArr ms'))
                                   ''serializationVersion'' (JNum 2))),
                (''user'', JNull), (''serializationVersion'', JNum 3)])"
  using assms
  by (simp add: upgradeStoredData_def upgrade1_def map_of_assign del: upgradeMessages.simps)

lemma upgradeStoredData_v1_blob:
  "upgradeStoredData v1_blob =
     Inr (JObj [(''chat'',
             JObj [(''name'', JStr ''Old chat''),
               (''messages'', JArr [JObj [(''id'', JStr ''m1''), (''role'', JStr ''assistant''),
                  (''message'', JStr ''Hi''), (''cost_tokens'', JUndefined),
                  (''cost_tokens_completion'', JNum 7)]]),
               (''serializationVersion'', JNum 2)]),
           (''user'', JNull), (''serializationVersion'', JNum 3)])"
  by (simp add: v1_blob_def upgradeStoredData_def upgrade1_def upgradeMessage_def)

text \<open>
  Claim C6 says that migrating a version-1 blob twice gives what migrating it once gives, and
  that this is a version-3 blob. The first part holds of every blob (\<open>upgradeStoredData_idem\<close>),
  and a version-1 blob with at least one message is wrapped into a version-3 blob
  (\<open>upgradeStoredData_v1_nonempty\<close>). A version-1 blob with no message is returned as it is,
  still of version 1.
\<close>

theorem upgradeStoredData_empty_v1:
  "upgradeStoredData empty_v1_blob = Inr empty_v1_blob
   \<and> getProp empty_v1_blob ''serializationVersion'' = Inr (JNum 1)"
  by (simp add: empty_v1_blob_def upgradeStoredData_def upgrade1_def)

end
